theory Spec2Isabelle
  imports Main "HOL-Library.AList" "HOL-Library.Char_ord" "HOL-Library.List_Lexorder"
begin

section \<open>DataTable: a query layer over a tabular frame\<close>

text \<open>
  The development embeds \<^verbatim>\<open>DataTable/utils.py\<close> and the class \<^verbatim>\<open>DataTable\<close> of
  \<^verbatim>\<open>DataTable/DataTable.py\<close>. Python exceptions are values of the type \<open>error\<close>,
  and a call that may raise returns \<open>error + 'a\<close> with \<open>Inl\<close> for the exception.
  A Python \<^verbatim>\<open>set\<close> is a list of its members in iteration order, a \<^verbatim>\<open>dict\<close> an
  association list in insertion order.
\<close>

subsection \<open>utils.py\<close>

text \<open>
  \<open>OrderDependent\<close> is the outcome of a loop over a \<^verbatim>\<open>set\<close> in which several members
  raise different exceptions: the call raises one of them, and the iteration order of
  the set, which the interpreter does not fix, decides which.
\<close>

datatype error =
  TypeError | ValueError | AssertionError | KeyError | AttributeError | OrderDependent

definition extract_match :: "'a list \<Rightarrow> 'a list \<Rightarrow> 'a list" where
  "extract_match list1 list2 = [element \<leftarrow> list1. element \<in> set list2]"

definition are_contained :: "'a list \<Rightarrow> 'a list \<Rightarrow> bool" where
  "are_contained set1 set2 =
     (let ls1 = extract_match set1 set2;
          ls2 = extract_match set2 set1
      in set ls1 = set ls2)"

definition assertion :: "bool \<Rightarrow> error + unit" where
  "assertion statement = (if \<not> statement then Inl AssertionError else Inr ())"

subsection \<open>Cells, frames and the operations of the storage layer\<close>

text \<open>
  The class keeps its rows in a pandas \<^verbatim>\<open>DataFrame\<close>. The frame is modelled row by
  row: the column labels, and for every row its index label and its cells in column
  order. A cell is a string, a number or the missing value \<^verbatim>\<open>nan\<close>. The numbers are
  the integers that a 64-bit float holds exactly: the frame stores a numeric column
  with a missing value as floats, and the rounding of larger integers and the fractions
  are outside the model. Only the frame operations the class calls are modelled, each as
  the library documents it for frames whose column labels are distinct.
\<close>

datatype scalar = Str string | Num int | NaN

text \<open>Elementwise \<^verbatim>\<open>==\<close> and \<^verbatim>\<open>!=\<close>: \<^verbatim>\<open>nan\<close> equals nothing, itself included.\<close>

fun py_eq :: "scalar \<Rightarrow> scalar \<Rightarrow> bool" where
  "py_eq (Str a) (Str b) = (a = b)"
| "py_eq (Num a) (Num b) = (a = b)"
| "py_eq _ _ = False"

definition py_ne :: "scalar \<Rightarrow> scalar \<Rightarrow> bool" where
  "py_ne a b = (\<not> py_eq a b)"

text \<open>
  The value a dict binds to a column is a scalar or a list of scalars. A cell is
  compared with it as one object: no cell equals a list.
\<close>

datatype pyobj = Scalar scalar | PyList "scalar list"

fun cell_eq :: "scalar \<Rightarrow> pyobj \<Rightarrow> bool" where
  "cell_eq x (Scalar v) = py_eq x v"
| "cell_eq x (PyList vs) = False"

definition cell_ne :: "scalar \<Rightarrow> pyobj \<Rightarrow> bool" where
  "cell_ne x obj = (\<not> cell_eq x obj)"

record dataframe =
  columns :: "string list"
  rows :: "(nat \<times> scalar list) list"

definition empty_frame :: dataframe where
  "empty_frame = \<lparr>columns = [], rows = []\<rparr>"

definition cell :: "string list \<Rightarrow> scalar list \<Rightarrow> string \<Rightarrow> scalar" where
  "cell cols cells c = (case map_of (zip cols cells) c of Some v \<Rightarrow> v | None \<Rightarrow> NaN)"

definition column_values :: "dataframe \<Rightarrow> string \<Rightarrow> scalar list" where
  "column_values fr c = map (\<lambda>(i, r). cell (columns fr) r c) (rows fr)"

text \<open>
  The values a query binds to its keys: a set of column names, a single name, a mapping
  from columns to scalars, a mapping from columns to lists (column-major rows to append),
  a list of records (row-major rows to append), or any other object.
\<close>

datatype qvalue =
    Names "string list"
  | Name string
  | Mapping "(string \<times> scalar) list"
  | Lists "(string \<times> scalar list) list"
  | Records "(string \<times> scalar) list list"
  | Other

type_synonym query = "(string \<times> qvalue) list"

datatype pyquery = PyNone | NotADict | PyDict query

datatype pyflag = PyBool bool | NotABool

datatype selection = Frame dataframe | Series string "(nat \<times> scalar) list"

text \<open>\<^verbatim>\<open>frame[names]\<close>: the projection on a list of labels; a missing label raises.\<close>

definition take_columns :: "dataframe \<Rightarrow> string list \<Rightarrow> error + dataframe" where
  "take_columns fr names =
     (if set names \<subseteq> set (columns fr)
      then Inr \<lparr>columns = names,
                rows = map (\<lambda>(i, r). (i, map (cell (columns fr) r) names)) (rows fr)\<rparr>
      else Inl KeyError)"

text \<open>
  \<^verbatim>\<open>frame[key]\<close> for the keys a query can hold. A collection selects a frame (a dict
  is read as the list of its keys), a single name selects a series.
\<close>

fun getitem :: "dataframe \<Rightarrow> qvalue \<Rightarrow> error + selection" where
  "getitem fr (Names ns) = map_sum id Frame (take_columns fr ns)"
| "getitem fr (Name n) =
     (if n \<in> set (columns fr)
      then Inr (Series n (map (\<lambda>(i, r). (i, cell (columns fr) r n)) (rows fr)))
      else Inl KeyError)"
| "getitem fr (Mapping m) = map_sum id Frame (take_columns fr (map fst m))"
| "getitem fr (Lists l) = map_sum id Frame (take_columns fr (map fst l))"
| "getitem fr (Records rs) = Inl TypeError"
| "getitem fr Other = Inl KeyError"

text \<open>
  \<^verbatim>\<open>pd.Series(state)\<close>, the right operand of a comparison with a frame: one entry per
  key of the dict, holding the scalar or the list the key is bound to. The shapes that
  are no dict never reach this point: validation has raised before.
\<close>

fun as_series :: "qvalue \<Rightarrow> error + (string \<times> pyobj) list" where
  "as_series (Mapping m) = Inr (map (\<lambda>(k, v). (k, Scalar v)) m)"
| "as_series (Lists l) = Inr (map (\<lambda>(k, vs). (k, PyList vs)) l)"
| "as_series _ = Inl TypeError"

text \<open>
  \<^verbatim>\<open>frame == series\<close> and \<^verbatim>\<open>frame != series\<close>, where the frame's columns are the
  series' labels in the same order, and \<^verbatim>\<open>.all(axis=1)\<close> on the boolean frame.
\<close>

definition compare_series ::
  "(scalar \<Rightarrow> pyobj \<Rightarrow> bool) \<Rightarrow> dataframe \<Rightarrow> (string \<times> pyobj) list \<Rightarrow> (nat \<times> bool list) list" where
  "compare_series cmp fr s =
     map (\<lambda>(i, r). (i, map (\<lambda>(x, v). cmp x v) (zip r (map snd s)))) (rows fr)"

definition all_axis1 :: "(nat \<times> bool list) list \<Rightarrow> (nat \<times> bool) list" where
  "all_axis1 bf = map (\<lambda>(i, bs). (i, list_all id bs)) bf"

text \<open>\<^verbatim>\<open>frame[mask]\<close> and \<^verbatim>\<open>frame.loc[mask]\<close>: the rows whose mask entry is true.\<close>

definition select_rows :: "dataframe \<Rightarrow> (nat \<times> bool) list \<Rightarrow> dataframe" where
  "select_rows fr msk =
     fr\<lparr>rows := map fst (filter (\<lambda>(r, (i, b)). b) (zip (rows fr) msk))\<rparr>"

text \<open>
  The row mask \<^verbatim>\<open>(self._df[state] cmp pd.Series(state)).all(axis=1)\<close> that
  \<^verbatim>\<open>__filter\<close>, \<^verbatim>\<open>edit\<close> (with \<^verbatim>\<open>==\<close>) and \<^verbatim>\<open>delete\<close> (with \<^verbatim>\<open>!=\<close>) compute.
\<close>

definition row_mask ::
  "(scalar \<Rightarrow> pyobj \<Rightarrow> bool) \<Rightarrow> dataframe \<Rightarrow> qvalue \<Rightarrow> error + (nat \<times> bool) list" where
  "row_mask cmp fr state =
     (case getitem fr state of
        Inl e \<Rightarrow> Inl e
      | Inr (Series n vs) \<Rightarrow> Inl TypeError
      | Inr (Frame sub) \<Rightarrow>
          (case as_series state of
             Inl e \<Rightarrow> Inl e
           | Inr s \<Rightarrow> Inr (all_axis1 (compare_series cmp sub s))))"

text \<open>
  \<^verbatim>\<open>frame.loc[mask, kw] = v\<close>: the masked cells of column \<open>kw\<close> become \<open>v\<close>. When the
  frame has no column \<open>kw\<close> the assignment enlarges it: the column is added, holding
  \<open>v\<close> in the masked rows and \<^verbatim>\<open>nan\<close> in the others.
\<close>

definition set_cells :: "dataframe \<Rightarrow> (nat \<times> bool) list \<Rightarrow> string \<Rightarrow> scalar \<Rightarrow> dataframe" where
  "set_cells fr msk kw v =
     (if kw \<in> set (columns fr)
      then fr\<lparr>rows := map (\<lambda>((i, r), (j, b)).
                  (i, if b then map (\<lambda>(c, x). if c = kw then v else x) (zip (columns fr) r) else r))
                (zip (rows fr) msk)\<rparr>
      else \<lparr>columns = columns fr @ [kw],
            rows = map (\<lambda>((i, r), (j, b)). (i, r @ [if b then v else NaN])) (zip (rows fr) msk)\<rparr>)"

text \<open>
  \<^verbatim>\<open>frame.loc[mask, kw] = [v1, ..., vn]\<close>: a list is written value by value down the
  masked rows and has to hold one value for each of them; the assignment raises
  otherwise. \<open>spread\<close> hands the values to the masked rows in order.
\<close>

fun spread :: "(nat \<times> bool) list \<Rightarrow> scalar list \<Rightarrow> scalar option list" where
  "spread [] vs = []"
| "spread ((j, False) # msk) vs = None # spread msk vs"
| "spread ((j, True) # msk) [] = None # spread msk []"
| "spread ((j, True) # msk) (v # vs) = Some v # spread msk vs"

definition set_cells_list ::
  "dataframe \<Rightarrow> (nat \<times> bool) list \<Rightarrow> string \<Rightarrow> scalar list \<Rightarrow> error + dataframe" where
  "set_cells_list fr msk kw vs =
     (if length vs \<noteq> length (filter snd msk) then Inl ValueError
      else if kw \<in> set (columns fr)
      then Inr (fr\<lparr>rows := map (\<lambda>((i, r), w).
                  (i, case w of
                        Some v \<Rightarrow> map (\<lambda>(c, x). if c = kw then v else x) (zip (columns fr) r)
                      | None \<Rightarrow> r))
                (zip (rows fr) (spread msk vs))\<rparr>)
      else Inr \<lparr>columns = columns fr @ [kw],
                rows = map (\<lambda>((i, r), w). (i, r @ [case w of Some v \<Rightarrow> v | None \<Rightarrow> NaN]))
                         (zip (rows fr) (spread msk vs))\<rparr>)"

fun loc_assign :: "dataframe \<Rightarrow> (nat \<times> bool) list \<Rightarrow> string \<Rightarrow> pyobj \<Rightarrow> error + dataframe" where
  "loc_assign fr msk kw (Scalar v) = Inr (set_cells fr msk kw v)"
| "loc_assign fr msk kw (PyList vs) = set_cells_list fr msk kw vs"

text \<open>
  \<^verbatim>\<open>series.max()\<close>: missing values are skipped, and a column with nothing left gives
  \<^verbatim>\<open>nan\<close>. Numbers compare with numbers and strings with strings (by code point); a
  column that holds both, or strings and missing values, raises \<^verbatim>\<open>TypeError\<close>.
\<close>

fun is_number :: "scalar \<Rightarrow> bool" where
  "is_number (Num n) = True"
| "is_number _ = False"

fun is_string :: "scalar \<Rightarrow> bool" where
  "is_string (Str s) = True"
| "is_string _ = False"

fun scalar_le :: "scalar \<Rightarrow> scalar \<Rightarrow> bool" where
  "scalar_le (Num a) (Num b) = (a \<le> b)"
| "scalar_le (Str a) (Str b) = (a \<le> b)"
| "scalar_le _ _ = False"

definition larger :: "scalar \<Rightarrow> scalar \<Rightarrow> scalar" where
  "larger a b = (if scalar_le a b then b else a)"

definition series_max :: "scalar list \<Rightarrow> error + scalar" where
  "series_max vs =
     (case filter (\<lambda>v. v \<noteq> NaN) vs of
        [] \<Rightarrow> Inr NaN
      | p # ps \<Rightarrow>
          if list_all is_number (p # ps) then Inr (fold larger ps p)
          else if list_all is_string vs then Inr (fold larger ps p)
          else Inl TypeError)"

text \<open>\<^verbatim>\<open>frame.to_dict(dict_type)\<close> for the six documented encodings.\<close>

datatype dict_type = DictT | ListT | SeriesT | SplitT | RecordsT | IndexT

datatype encoded =
    AsDict "(string \<times> (nat \<times> scalar) list) list"
  | AsList "(string \<times> scalar list) list"
  | AsSeries "(string \<times> (nat \<times> scalar) list) list"
  | AsSplit "nat list" "string list" "scalar list list"
  | AsRecords "(string \<times> scalar) list list"
  | AsIndex "(nat \<times> (string \<times> scalar) list) list"

definition labelled_values :: "dataframe \<Rightarrow> string \<Rightarrow> (nat \<times> scalar) list" where
  "labelled_values fr c = map (\<lambda>(i, r). (i, cell (columns fr) r c)) (rows fr)"

fun to_dict :: "dataframe \<Rightarrow> dict_type \<Rightarrow> encoded" where
  "to_dict fr DictT = AsDict (map (\<lambda>c. (c, labelled_values fr c)) (columns fr))"
| "to_dict fr ListT = AsList (map (\<lambda>c. (c, column_values fr c)) (columns fr))"
| "to_dict fr SeriesT = AsSeries (map (\<lambda>c. (c, labelled_values fr c)) (columns fr))"
| "to_dict fr SplitT = AsSplit (map fst (rows fr)) (columns fr) (map snd (rows fr))"
| "to_dict fr RecordsT =
     AsRecords (map (\<lambda>(i, r). map (\<lambda>c. (c, cell (columns fr) r c)) (columns fr)) (rows fr))"
| "to_dict fr IndexT =
     AsIndex (map (\<lambda>(i, r). (i, map (\<lambda>c. (c, cell (columns fr) r c)) (columns fr))) (rows fr))"

text \<open>\<^verbatim>\<open>series.to_frame()\<close>: the one-column frame of a series.\<close>

definition to_frame :: "string \<Rightarrow> (nat \<times> scalar) list \<Rightarrow> dataframe" where
  "to_frame n vs = \<lparr>columns = [n], rows = map (\<lambda>(i, v). (i, [v])) vs\<rparr>"

text \<open>
  \<^verbatim>\<open>pd.DataFrame(x)\<close>. A mapping to lists gives one column per key and needs lists of
  one length; a list of records gives the union of the records' keys, in order of first
  appearance, with \<^verbatim>\<open>nan\<close> where a record lacks a key. Rows are labelled from 0.
\<close>

definition label_rows :: "scalar list list \<Rightarrow> (nat \<times> scalar list) list" where
  "label_rows rs = zip [0 ..< length rs] rs"

definition first_seen :: "string list \<Rightarrow> string list" where
  "first_seen ks = rev (remdups (rev ks))"

fun data_frame :: "qvalue \<Rightarrow> error + dataframe" where
  "data_frame (Lists []) = Inr empty_frame"
| "data_frame (Lists ((c, vs) # l)) =
     (if list_all (\<lambda>(c', vs'). length vs' = length vs) l
      then Inr \<lparr>columns = c # map fst l,
                rows = label_rows (map (\<lambda>i. map (\<lambda>(c', vs'). vs' ! i) ((c, vs) # l)) [0 ..< length vs])\<rparr>
      else Inl ValueError)"
| "data_frame (Records rs) =
     (let cols = first_seen (concat (map (map fst) rs))
      in Inr \<lparr>columns = cols,
              rows = label_rows (map (\<lambda>r. map (\<lambda>c. case map_of r c of Some v \<Rightarrow> v | None \<Rightarrow> NaN) cols) rs)\<rparr>)"
| "data_frame (Mapping []) = Inr empty_frame"
| "data_frame (Mapping (kv # m)) = Inl ValueError"
| "data_frame (Names ns) = Inl TypeError"
| "data_frame (Name n) = Inl ValueError"
| "data_frame Other = Inl ValueError"

text \<open>
  \<^verbatim>\<open>frame.append(other, ignore_index=True)\<close>: the columns of \<open>frame\<close> followed by the new
  ones of \<open>other\<close>, the rows of both with \<^verbatim>\<open>nan\<close> in the cells a side lacks, relabelled
  from 0.
\<close>

definition append_frame :: "dataframe \<Rightarrow> dataframe \<Rightarrow> dataframe" where
  "append_frame fr other =
     (let cols = columns fr @ [c \<leftarrow> columns other. c \<notin> set (columns fr)]
      in \<lparr>columns = cols,
          rows = label_rows
            (map (\<lambda>(i, r). map (cell (columns fr) r) cols) (rows fr) @
             map (\<lambda>(i, r). map (cell (columns other) r) cols) (rows other))\<rparr>)"

text \<open>
  \<^verbatim>\<open>frame.replace(nan, '')\<close>, and \<^verbatim>\<open>frame.to_csv(path, sep=sep, index=False)\<close>. A file
  holds the header, the rows without their index labels, and the separator it was
  written with; the rendering as text is not modelled. The writer takes a separator of
  one character. With the path \<^verbatim>\<open>None\<close> the text is returned to the caller and no file
  is written.
\<close>

definition replace_nan_frame :: "dataframe \<Rightarrow> dataframe" where
  "replace_nan_frame fr =
     fr\<lparr>rows := map (\<lambda>(i, r). (i, map (\<lambda>x. if x = NaN then Str [] else x) r)) (rows fr)\<rparr>"

record csv_file =
  header :: "string list"
  records :: "scalar list list"
  delimiter :: string

type_synonym file_system = "(string \<times> csv_file) list"

definition to_csv :: "dataframe \<Rightarrow> string option \<Rightarrow> string \<Rightarrow> file_system \<Rightarrow> error + file_system" where
  "to_csv fr path_or_buf s fs =
     (if length s \<noteq> 1 then Inl TypeError
      else case path_or_buf of
             None \<Rightarrow> Inr fs
           | Some p \<Rightarrow>
               Inr (AList.update p \<lparr>header = columns fr, records = map snd (rows fr), delimiter = s\<rparr> fs))"

subsection \<open>The class DataTable\<close>

text \<open>
  An attribute that \<^verbatim>\<open>__init__\<close> may leave unset is an option: \<open>None\<close> is the attribute
  that does not exist (reading it raises \<^verbatim>\<open>AttributeError\<close>), \<open>Some\<close> holds its value.
  The value of \<^verbatim>\<open>__path\<close> is itself \<^verbatim>\<open>None\<close> or a string. \<^verbatim>\<open>__keywords\<close> is the same
  for every table.
\<close>

record table =
  df :: dataframe
  path :: "string option option"
  sep :: "string option"

definition query_keys :: "string list" where
  "query_keys = [''columns'', ''state'', ''values'']"

record world =
  tbl :: table
  files :: file_system

definition and_then :: "error + 'a \<Rightarrow> ('a \<Rightarrow> error + 'b) \<Rightarrow> error + 'b" where
  "and_then r f = (case r of Inl e \<Rightarrow> Inl e | Inr x \<Rightarrow> f x)"

text \<open>
  \<^verbatim>\<open>__load\<close> reads \<^verbatim>\<open>__path\<close> and \<^verbatim>\<open>__sep\<close> and calls \<^verbatim>\<open>pd.read_csv\<close>, a parameter
  here. \<^verbatim>\<open>__init__\<close> calls it before it assigns \<^verbatim>\<open>__sep\<close>.
\<close>

definition load ::
  "(string option \<Rightarrow> string \<Rightarrow> error + dataframe) \<Rightarrow> table \<Rightarrow> bool \<Rightarrow> error + table" where
  "load read_csv t replace_nan =
     (case path t of
        None \<Rightarrow> Inl AttributeError
      | Some p \<Rightarrow>
          (case sep t of
             None \<Rightarrow> Inl AttributeError
           | Some s \<Rightarrow>
               and_then (read_csv p s)
                 (\<lambda>fr. Inr (t\<lparr>df := if replace_nan then replace_nan_frame fr else fr\<rparr>))))"

datatype init_arg = FromPath string | FromDict "(string \<times> scalar list) list" | Neither

definition init ::
  "(string \<Rightarrow> bool) \<Rightarrow> (string option \<Rightarrow> string \<Rightarrow> error + dataframe) \<Rightarrow>
   init_arg \<Rightarrow> string \<Rightarrow> bool \<Rightarrow> error + table" where
  "init path_exists read_csv path_or_dict s replace_nan =
     and_then
       (case path_or_dict of
          FromPath p \<Rightarrow>
            and_then (assertion (path_exists p))
              (\<lambda>u. load read_csv \<lparr>df = empty_frame, path = Some (Some p), sep = None\<rparr> replace_nan)
        | FromDict d \<Rightarrow>
            and_then (data_frame (Lists d))
              (\<lambda>fr. Inr \<lparr>df = fr, path = Some None, sep = None\<rparr>)
        | Neither \<Rightarrow> Inr \<lparr>df = empty_frame, path = None, sep = None\<rparr>)
       (\<lambda>t. Inr (t\<lparr>sep := Some s\<rparr>))"

definition save :: "table \<Rightarrow> string option \<Rightarrow> string option \<Rightarrow> file_system \<Rightarrow> error + file_system" where
  "save t path_arg sep_arg fs =
     and_then (case path_arg of None \<Rightarrow> (case path t of None \<Rightarrow> Inl AttributeError | Some p \<Rightarrow> Inr p)
                              | Some p \<Rightarrow> Inr (Some p))
       (\<lambda>p. and_then (case sep_arg of None \<Rightarrow> (case sep t of None \<Rightarrow> Inl AttributeError | Some s \<Rightarrow> Inr s)
                                     | Some s \<Rightarrow> Inr s)
          (\<lambda>s. to_csv (df t) p s fs))"

text \<open>\<^verbatim>\<open>if save: self.save()\<close>, the last statement of the three mutating methods.\<close>

definition save_if :: "bool \<Rightarrow> world \<Rightarrow> world \<times> (error + unit)" where
  "save_if b w =
     (if b
      then (case save (tbl w) None None (files w) of
              Inl e \<Rightarrow> (w, Inl e)
            | Inr fs \<Rightarrow> (w\<lparr>files := fs\<rparr>, Inr ()))
      else (w, Inr ()))"

text \<open>\<^verbatim>\<open>query[key]\<close>.\<close>

fun item :: "pyquery \<Rightarrow> string \<Rightarrow> error + qvalue" where
  "item (PyDict q) k = (case map_of q k of None \<Rightarrow> Inl KeyError | Some v \<Rightarrow> Inr v)"
| "item _ k = Inl TypeError"

text \<open>
  \<^verbatim>\<open>__query_validation\<close>. The column names of an entry are the entry itself under the
  key \<^verbatim>\<open>columns\<close> (a string is then the collection of its characters) and the keys of
  the entry otherwise; an object without \<^verbatim>\<open>keys\<close> raises there. \<open>check_entry\<close> is the
  body of the loop over the recognized keys of the query. The loop walks a \<^verbatim>\<open>set\<close> and
  stops at the first key that raises, so \<open>check_columns\<close> looks at every key: when the
  keys that raise all raise the same exception that is the outcome, and otherwise the
  outcome depends on the order.
\<close>

fun named_columns :: "string \<Rightarrow> qvalue \<Rightarrow> error + string list" where
  "named_columns kw v =
     (if kw = ''columns''
      then (case v of
              Names ns \<Rightarrow> Inr ns
            | Name n \<Rightarrow> Inr (map (\<lambda>c. [c]) n)
            | Mapping m \<Rightarrow> Inr (map fst m)
            | Lists l \<Rightarrow> Inr (map fst l)
            | Records rs \<Rightarrow> Inl TypeError
            | Other \<Rightarrow> Inl TypeError)
      else (case v of
              Mapping m \<Rightarrow> Inr (map fst m)
            | Lists l \<Rightarrow> Inr (map fst l)
            | _ \<Rightarrow> Inl AttributeError))"

definition check_entry :: "table \<Rightarrow> query \<Rightarrow> string \<Rightarrow> error + unit" where
  "check_entry t q kw =
     and_then (item (PyDict q) kw)
       (\<lambda>v. and_then (named_columns kw v)
          (\<lambda>cols. if \<not> are_contained cols (columns (df t)) then Inl ValueError else Inr ()))"

definition first_raised :: "error + unit \<Rightarrow> error + unit \<Rightarrow> error + unit" where
  "first_raised a b =
     (case a of
        Inr u \<Rightarrow> b
      | Inl e \<Rightarrow> (case b of
                    Inr u \<Rightarrow> Inl e
                  | Inl e' \<Rightarrow> if e = e' then Inl e else Inl OrderDependent))"

fun check_columns :: "table \<Rightarrow> query \<Rightarrow> string list \<Rightarrow> error + unit" where
  "check_columns t q [] = Inr ()"
| "check_columns t q (kw # kws) = first_raised (check_entry t q kw) (check_columns t q kws)"

definition query_validation :: "table \<Rightarrow> pyquery \<Rightarrow> string list option \<Rightarrow> error + unit" where
  "query_validation t query must_have =
     (case query of
        PyDict q \<Rightarrow>
          if \<not> are_contained (map fst q) query_keys then Inl ValueError
          else and_then
                 (case must_have of
                    None \<Rightarrow> Inr ()
                  | Some mh \<Rightarrow> assertion (set (extract_match (map fst q) mh) = set mh))
                 (\<lambda>u. check_columns t q (extract_match (map fst q) query_keys))
      | _ \<Rightarrow> Inl TypeError)"

text \<open>\<^verbatim>\<open>__filter\<close>.\<close>

definition filter_dt :: "table \<Rightarrow> qvalue \<Rightarrow> error + dataframe" where
  "filter_dt t state = and_then (row_mask cell_eq (df t) state) (\<lambda>m. Inr (select_rows (df t) m))"

text \<open>
  \<^verbatim>\<open>if 'state' not in query: query['state'] = {}\<close>, an assignment into the dict the
  caller passed.
\<close>

definition default_state :: "query \<Rightarrow> query" where
  "default_state q = (if ''state'' \<notin> set (map fst q) then q @ [(''state'', Mapping [])] else q)"

text \<open>
  \<^verbatim>\<open>get\<close> returns the table, the caller's argument as the call leaves it, and the
  result. \<open>get_from\<close> is the method's body from the validation on. An argument that is
  not a dict raises \<^verbatim>\<open>TypeError\<close>, in the membership test, in the assignment or in the
  validation; for \<^verbatim>\<open>None\<close> the method works on a dict of its own.
\<close>

definition get_from :: "query \<Rightarrow> dict_type \<Rightarrow> table \<Rightarrow> error + encoded" where
  "get_from q dict_type t =
     and_then (query_validation t (PyDict q) (Some [''state'']))
       (\<lambda>u. and_then (item (PyDict q) ''state'')
          (\<lambda>state. and_then (filter_dt t state)
             (\<lambda>tb. case map_of q ''columns'' of
                      None \<Rightarrow> Inr (to_dict tb dict_type)
                    | Some cols \<Rightarrow>
                        and_then (getitem tb cols)
                          (\<lambda>sel. case sel of
                                    Series n vs \<Rightarrow> Inr (to_dict (to_frame n vs) dict_type)
                                  | Frame f \<Rightarrow> Inr (to_dict f dict_type)))))"

definition get :: "pyquery \<Rightarrow> dict_type \<Rightarrow> table \<Rightarrow> table \<times> pyquery \<times> (error + encoded)" where
  "get query dict_type t =
     (case query of
        PyNone \<Rightarrow> (t, PyNone, get_from (default_state []) dict_type t)
      | NotADict \<Rightarrow> (t, NotADict, Inl TypeError)
      | PyDict q \<Rightarrow> (t, PyDict (default_state q), get_from (default_state q) dict_type t))"

text \<open>
  \<^verbatim>\<open>delete\<close>, \<^verbatim>\<open>edit\<close> and \<^verbatim>\<open>append\<close> return the world they leave and whether they
  raised. \<^verbatim>\<open>edit\<close> computes the mask anew for every key of \<^verbatim>\<open>values\<close> and writes
  into the frame key by key: when the assignment of a key raises, the keys before it
  have been written and stay written.
\<close>

definition delete :: "pyquery \<Rightarrow> pyflag \<Rightarrow> world \<Rightarrow> world \<times> (error + unit)" where
  "delete query save_flag w =
     (case save_flag of
        NotABool \<Rightarrow> (w, Inl TypeError)
      | PyBool b \<Rightarrow>
          (case and_then (query_validation (tbl w) query (Some [''state'']))
                  (\<lambda>u. and_then (item query ''state'') (row_mask cell_ne (df (tbl w)))) of
             Inl e \<Rightarrow> (w, Inl e)
           | Inr m \<Rightarrow> save_if b (w\<lparr>tbl := (tbl w)\<lparr>df := select_rows (df (tbl w)) m\<rparr>\<rparr>)))"

fun new_values :: "qvalue \<Rightarrow> error + (string \<times> pyobj) list" where
  "new_values (Mapping m) = Inr (map (\<lambda>(k, v). (k, Scalar v)) m)"
| "new_values (Lists l) = Inr (map (\<lambda>(k, vs). (k, PyList vs)) l)"
| "new_values _ = Inl TypeError"

fun edit_loop :: "dataframe \<Rightarrow> qvalue \<Rightarrow> (string \<times> pyobj) list \<Rightarrow> dataframe \<times> (error + unit)" where
  "edit_loop fr state [] = (fr, Inr ())"
| "edit_loop fr state ((kw, v) # vals) =
     (case and_then (row_mask cell_eq fr state) (\<lambda>m. loc_assign fr m kw v) of
        Inl e \<Rightarrow> (fr, Inl e)
      | Inr fr' \<Rightarrow> edit_loop fr' state vals)"

definition edit :: "pyquery \<Rightarrow> pyflag \<Rightarrow> world \<Rightarrow> world \<times> (error + unit)" where
  "edit query save_flag w =
     (case save_flag of
        NotABool \<Rightarrow> (w, Inl TypeError)
      | PyBool b \<Rightarrow>
          (case and_then (query_validation (tbl w) query (Some [''state'', ''values'']))
                  (\<lambda>u. and_then (item query ''state'')
                     (\<lambda>state. and_then (and_then (item query ''values'') new_values)
                        (\<lambda>vals. Inr (edit_loop (df (tbl w)) state vals)))) of
             Inl e \<Rightarrow> (w, Inl e)
           | Inr (fr, Inl e) \<Rightarrow> (w\<lparr>tbl := (tbl w)\<lparr>df := fr\<rparr>\<rparr>, Inl e)
           | Inr (fr, Inr u) \<Rightarrow> save_if b (w\<lparr>tbl := (tbl w)\<lparr>df := fr\<rparr>\<rparr>)))"

definition append_dt :: "pyquery \<Rightarrow> pyflag \<Rightarrow> world \<Rightarrow> world \<times> (error + unit)" where
  "append_dt query save_flag w =
     (case save_flag of
        NotABool \<Rightarrow> (w, Inl TypeError)
      | PyBool b \<Rightarrow>
          (case and_then (item query ''values'') data_frame of
             Inl e \<Rightarrow> (w, Inl e)
           | Inr other \<Rightarrow> save_if b (w\<lparr>tbl := (tbl w)\<lparr>df := append_frame (df (tbl w)) other\<rparr>\<rparr>)))"

text \<open>
  \<^verbatim>\<open>max\<close>. The loop fills the dict \<^verbatim>\<open>max_values\<close>, with 0 where the column's maximum
  is \<^verbatim>\<open>nan\<close>. A single name under \<^verbatim>\<open>columns\<close> selects a series, which has no
  \<^verbatim>\<open>columns\<close>.
\<close>

fun max_loop :: "dataframe \<Rightarrow> string list \<Rightarrow> (string \<times> scalar) list \<Rightarrow> error + (string \<times> scalar) list" where
  "max_loop tb [] max_values = Inr max_values"
| "max_loop tb (col # cols) max_values =
     and_then (series_max (column_values tb col))
       (\<lambda>v. max_loop tb cols (AList.update col (if v \<noteq> NaN then v else Num 0) max_values))"

definition max_from :: "query \<Rightarrow> table \<Rightarrow> error + (string \<times> scalar) list" where
  "max_from q t =
     and_then (query_validation t (PyDict q) (Some [''columns'']))
       (\<lambda>u. and_then (item (PyDict q) ''state'')
          (\<lambda>state. and_then (filter_dt t state)
             (\<lambda>tb. and_then (case map_of q ''columns'' of
                                None \<Rightarrow> Inr (Frame tb)
                              | Some cols \<Rightarrow> getitem tb cols)
                (\<lambda>sel. case sel of
                          Series n vs \<Rightarrow> Inl AttributeError
                        | Frame f \<Rightarrow> max_loop f (columns f) []))))"

definition max_dt :: "pyquery \<Rightarrow> table \<Rightarrow> table \<times> pyquery \<times> (error + (string \<times> scalar) list)" where
  "max_dt query t =
     (case query of
        PyDict q \<Rightarrow> (t, PyDict (default_state q), max_from (default_state q) t)
      | PyNone \<Rightarrow> (t, PyNone, Inl TypeError)
      | NotADict \<Rightarrow> (t, NotADict, Inl TypeError))"

subsection \<open>The table of the scenarios\<close>

definition animals_frame :: dataframe where
  "animals_frame =
     \<lparr>columns = [''animal'', ''color''],
      rows = [(0, [Str ''dog'', Str ''red'']),
              (1, [Str ''cat'', Str ''black'']),
              (2, [Str ''dog'', Str ''black''])]\<rparr>"

definition animals :: table where
  "animals = \<lparr>df = animals_frame, path = Some None, sep = Some '';''\<rparr>"

definition animals_world :: world where
  "animals_world = \<lparr>tbl = animals, files = []\<rparr>"

text \<open>A table whose column \<open>age\<close> holds a number and a string.\<close>

definition pets :: table where
  "pets =
     \<lparr>df = \<lparr>columns = [''name'', ''age''],
             rows = [(0, [Str ''rex'', Num 3]), (1, [Str ''tom'', Str ''old''])]\<rparr>,
      path = Some None, sep = Some '';''\<rparr>"

text \<open>
  A table with a column of numbers and missing values, a column of missing values only
  among the dogs, and a column of strings with one missing value.
\<close>

definition herd :: table where
  "herd =
     \<lparr>df = \<lparr>columns = [''name'', ''kind'', ''age'', ''weight'', ''tag''],
             rows = [(0, [Str ''rex'', Str ''dog'', Num 3, NaN, Str ''a'']),
                     (1, [Str ''tom'', Str ''cat'', Num 7, Num 4, NaN]),
                     (2, [Str ''ann'', Str ''dog'', Num 5, NaN, Str ''b'']),
                     (3, [Str ''bob'', Str ''dog'', NaN, NaN, Str ''c''])]\<rparr>,
      path = Some None, sep = Some '';''\<rparr>"

text \<open>A file system without files, for constructing tables in memory.\<close>

definition no_path :: "string \<Rightarrow> bool" where
  "no_path p = False"

definition no_reader :: "string option \<Rightarrow> string \<Rightarrow> error + dataframe" where
  "no_reader p s = Inl ValueError"

text \<open>The table that \<^verbatim>\<open>DataTable()\<close> constructs: no rows, and no \<^verbatim>\<open>__path\<close>.\<close>

definition blank :: table where
  "blank = \<lparr>df = empty_frame, path = None, sep = Some '';''\<rparr>"

subsection \<open>Notions the properties are stated with\<close>

text \<open>
  A row satisfies a state under a comparison when every condition of the state holds
  of the row's cell; \<open>selected\<close> is the frame of the rows that equal the state in every
  condition.
\<close>

definition matches ::
  "(scalar \<Rightarrow> scalar \<Rightarrow> bool) \<Rightarrow> string list \<Rightarrow> (string \<times> scalar) list \<Rightarrow> nat \<times> scalar list \<Rightarrow> bool" where
  "matches cmp cols s = (\<lambda>(i, r). list_all (\<lambda>(k, v). cmp (cell cols r k) v) s)"

definition selected :: "table \<Rightarrow> (string \<times> scalar) list \<Rightarrow> dataframe" where
  "selected t s = (df t)\<lparr>rows := filter (matches py_eq (columns (df t)) s) (rows (df t))\<rparr>"

text \<open>The entries of a query that are dicts: they have \<^verbatim>\<open>keys\<close>.\<close>

fun is_dict :: "qvalue \<Rightarrow> bool" where
  "is_dict (Mapping m) = True"
| "is_dict (Lists l) = True"
| "is_dict _ = False"

text \<open>
  The values of a column are comparable when those present are all numbers, or when all
  of them are strings. \<open>is_max_of vs v\<close>: \<open>v\<close> is 0 when no value of \<open>vs\<close> is present,
  and otherwise one of the present values that no present value exceeds.
\<close>

definition comparable :: "scalar list \<Rightarrow> bool" where
  "comparable vs = (list_all is_number (filter (\<lambda>v. v \<noteq> NaN) vs) \<or> list_all is_string vs)"

definition is_max_of :: "scalar list \<Rightarrow> scalar \<Rightarrow> bool" where
  "is_max_of vs v =
     (let ps = filter (\<lambda>x. x \<noteq> NaN) vs
      in if ps = [] then v = Num 0 else v \<in> set ps \<and> list_all (\<lambda>u. scalar_le u v) ps)"

section \<open>Properties\<close>

subsection \<open>Validation\<close>

lemma and_then_Inl [simp]: "and_then (Inl e) f = Inl e"
  by (simp add: and_then_def)

lemma and_then_Inr [simp]: "and_then (Inr x) f = f x"
  by (simp add: and_then_def)

text \<open>
  \<open>are_contained\<close> compares the intersection of its arguments with itself: both lists
  it builds hold the members common to \<open>set1\<close> and \<open>set2\<close>. It is true of any two sets,
  so neither test of \<^verbatim>\<open>__query_validation\<close> that negates it can raise.
\<close>

lemma are_contained_always: "are_contained set1 set2"
  by (auto simp: are_contained_def extract_match_def)

lemma check_entry_raises:
  assumes "check_entry t q kw = Inl e"
  shows "e = KeyError \<or> e = TypeError \<or> e = AttributeError"
proof (cases "map_of q kw")
  case None
  with assms show ?thesis by (simp add: check_entry_def)
next
  case (Some v)
  show ?thesis
  proof (cases "named_columns kw v")
    case (Inl e')
    then have "e' = TypeError \<or> e' = AttributeError"
      by (cases v) (auto split: if_splits)
    with assms Some Inl show ?thesis
      by (auto simp: check_entry_def simp del: named_columns.simps)
  next
    case (Inr cols)
    with assms Some show ?thesis
      by (simp add: check_entry_def are_contained_always del: named_columns.simps)
  qed
qed

lemma check_columns_passes:
  "(check_columns t q kws = Inr ()) = list_all (\<lambda>kw. check_entry t q kw = Inr ()) kws"
  by (induction kws) (auto simp: first_raised_def split: sum.splits)

lemma check_columns_raises:
  assumes "e \<noteq> OrderDependent"
  shows "(check_columns t q kws = Inl e) =
           (list_ex (\<lambda>kw. check_entry t q kw = Inl e) kws \<and>
            list_all (\<lambda>kw. check_entry t q kw = Inr () \<or> check_entry t q kw = Inl e) kws)"
proof (induction kws)
  case Nil
  show ?case by simp
next
  case (Cons kw kws)
  let ?rest = "list_all (\<lambda>kw. check_entry t q kw = Inr () \<or> check_entry t q kw = Inl e) kws"
  let ?some = "list_ex (\<lambda>kw. check_entry t q kw = Inl e) kws"
  show ?case
  proof (cases "check_entry t q kw")
    case (Inr u)
    with Cons show ?thesis by (simp add: first_raised_def)
  next
    case a: (Inl e')
    show ?thesis
    proof (cases "check_columns t q kws")
      case (Inr u)
      then have "list_all (\<lambda>kw. check_entry t q kw = Inr ()) kws"
        by (simp add: check_columns_passes)
      then have "?rest" "\<not> ?some" by (auto simp: list_all_iff list_ex_iff)
      with a Inr show ?thesis by (auto simp: first_raised_def)
    next
      case b: (Inl e'')
      then have "\<not> list_all (\<lambda>kw. check_entry t q kw = Inr ()) kws"
        by (simp add: check_columns_passes [symmetric])
      then have "?rest \<Longrightarrow> ?some" by (auto simp: list_all_iff list_ex_iff)
      with Cons b have "(e'' = e) = ?rest" by auto
      with a b assms show ?thesis by (auto simp: first_raised_def)
    qed
  qed
qed

text \<open>
  The outcome of the loop depends on the set of the keys it walks, not on their order.
\<close>

lemma check_columns_order:
  assumes "set kws = set kws'"
  shows "check_columns t q kws = check_columns t q kws'"
proof -
  have same: "(check_columns t q kws = r) = (check_columns t q kws' = r)"
    if "r \<noteq> Inl OrderDependent" for r
  proof (cases r)
    case (Inl e)
    with that have "e \<noteq> OrderDependent" by simp
    from check_columns_raises [OF this] assms Inl show ?thesis
      by (simp add: list_all_iff list_ex_iff)
  next
    case (Inr u)
    with assms show ?thesis by (simp add: check_columns_passes list_all_iff)
  qed
  show ?thesis
  proof (cases "check_columns t q kws = Inl OrderDependent")
    case True
    show ?thesis
    proof (rule ccontr)
      assume ne: "check_columns t q kws \<noteq> check_columns t q kws'"
      with True have "check_columns t q kws' \<noteq> Inl OrderDependent" by simp
      from same [OF this] have "check_columns t q kws = check_columns t q kws'" by simp
      with ne show False by simp
    qed
  next
    case False
    from same [OF False] show ?thesis by simp
  qed
qed

lemma check_columns_not_ValueError: "check_columns t q kws \<noteq> Inl ValueError"
proof
  assume "check_columns t q kws = Inl ValueError"
  then have "list_ex (\<lambda>kw. check_entry t q kw = Inl ValueError) kws"
    by (simp add: check_columns_raises)
  then obtain kw where "check_entry t q kw = Inl ValueError" by (auto simp: list_ex_iff)
  from check_entry_raises [OF this] show False by simp
qed

lemma query_validation_not_ValueError: "query_validation t query must_have \<noteq> Inl ValueError"
proof (cases query)
  case (PyDict q)
  show ?thesis
  proof (cases must_have)
    case None
    with PyDict show ?thesis
      by (simp add: query_validation_def are_contained_always check_columns_not_ValueError)
  next
    case (Some mh)
    with PyDict show ?thesis
      by (simp add: query_validation_def are_contained_always check_columns_not_ValueError
          assertion_def)
  qed
qed (simp_all add: query_validation_def)

text \<open>
  Claim C1. A query with a top-level key outside \<open>columns\<close>, \<open>state\<close>, \<open>values\<close> is to
  be rejected with \<^verbatim>\<open>ValueError\<close>. On the table of the scenarios \<^verbatim>\<open>get({'foo': 1})\<close>
  raises nothing and returns every row.
\<close>

theorem get_accepts_unrecognized_key:
  "get (PyDict [(''foo'', Other)]) ListT animals =
     (animals, PyDict [(''foo'', Other), (''state'', Mapping [])],
      Inr (AsList [(''animal'', [Str ''dog'', Str ''cat'', Str ''dog'']),
                   (''color'', [Str ''red'', Str ''black'', Str ''black''])]))"
  by code_simp

text \<open>
  Claim C6. A recognized key that names a column the table lacks is to be rejected with
  \<^verbatim>\<open>ValueError\<close>. The validation accepts unknown names under all three keys; \<^verbatim>\<open>get\<close>
  then fails in the frame with \<^verbatim>\<open>KeyError\<close>.
\<close>

theorem validation_accepts_unknown_columns:
  "query_validation animals
     (PyDict [(''columns'', Names [''size'']),
              (''state'', Mapping [(''weight'', Num 1)]),
              (''values'', Mapping [(''height'', Num 2)])])
     (Some [''state'']) = Inr () \<and>
   snd (snd (get (PyDict [(''columns'', Names [''size''])]) ListT animals)) = Inl KeyError"
  by code_simp

text \<open>
  Claim C3. \<^verbatim>\<open>edit\<close> is to reject a \<open>values\<close> column the table lacks and never to add
  a column. With \<^verbatim>\<open>values = {'size': 'big'}\<close> it raises nothing and the table gains the
  column \<open>size\<close>.
\<close>

theorem edit_adds_column:
  "edit (PyDict [(''state'', Mapping [(''animal'', Str ''cat'')]),
                 (''values'', Mapping [(''size'', Str ''big'')])]) (PyBool False) animals_world =
     (\<lparr>tbl = \<lparr>df = \<lparr>columns = [''animal'', ''color'', ''size''],
                     rows = [(0, [Str ''dog'', Str ''red'', NaN]),
                             (1, [Str ''cat'', Str ''black'', Str ''big'']),
                             (2, [Str ''dog'', Str ''black'', NaN])]\<rparr>,
              path = Some None, sep = Some '';''\<rparr>,
       files = []\<rparr>, Inr ())"
  by code_simp

subsection \<open>Reading\<close>

text \<open>
  Claim C9. On the table with the rows (dog, red), (cat, black), (dog, black),
  \<^verbatim>\<open>get\<close> with the state \<open>animal = dog\<close> and the columns \<open>{color}\<close> returns, in the
  default encoding, the mapping of \<open>color\<close> to the list red, black: a table of one
  column.
\<close>

theorem get_scenario:
  "get (PyDict [(''state'', Mapping [(''animal'', Str ''dog'')]), (''columns'', Names [''color''])])
     ListT animals =
     (animals,
      PyDict [(''state'', Mapping [(''animal'', Str ''dog'')]), (''columns'', Names [''color''])],
      Inr (AsList [(''color'', [Str ''red'', Str ''black''])]))"
  by code_simp

text \<open>
  Claim C8. \<^verbatim>\<open>get\<close> leaves the table as it was, whatever the query and the encoding,
  and whether or not it raises.
\<close>

theorem get_leaves_table_unchanged: "fst (get query dict_type t) = t"
  by (cases query) (simp_all add: get_def)

text \<open>
  Claim C10. When the dict passed to \<^verbatim>\<open>get\<close> or \<^verbatim>\<open>max\<close> has no key \<open>state\<close>, the
  caller's dict holds \<open>state\<close> bound to the empty mapping after the call, and so differs
  from the dict that was passed.
\<close>

theorem get_and_max_insert_state:
  assumes "''state'' \<notin> set (map fst q)"
  shows "fst (snd (get (PyDict q) dict_type t)) = PyDict (q @ [(''state'', Mapping [])]) \<and>
         fst (snd (max_dt (PyDict q) t)) = PyDict (q @ [(''state'', Mapping [])]) \<and>
         PyDict (q @ [(''state'', Mapping [])]) \<noteq> PyDict q"
  using assms by (simp add: get_def max_dt_def default_state_def)

theorem get_and_max_insert_state_witness:
  "''state'' \<notin> set (map fst [(''columns'', Names [''color''])]) \<and>
   fst (snd (get (PyDict [(''columns'', Names [''color''])]) ListT animals)) =
     PyDict [(''columns'', Names [''color'']), (''state'', Mapping [])] \<and>
   fst (snd (max_dt (PyDict [(''columns'', Names [''color''])]) animals)) =
     PyDict [(''columns'', Names [''color'']), (''state'', Mapping [])]"
  using get_and_max_insert_state [of "[(''columns'', Names [''color''])]" ListT animals]
  by simp

subsection \<open>Row masks\<close>

text \<open>
  For a state that maps columns of the frame to scalars, the mask of a comparison marks
  the rows that satisfy every condition under it, and \<^verbatim>\<open>__filter\<close> keeps those rows.
\<close>

lemma compare_row:
  "list_all id (map (\<lambda>p. cmp (fst p) (snd p))
      (zip (map (\<lambda>x. g (fst x)) s) (map (\<lambda>x. Scalar (snd x)) s))) =
   list_all (\<lambda>p. cmp (g (fst p)) (Scalar (snd p))) s"
  by (induction s) auto

lemma cell_ne_Scalar [simp]: "cell_ne x (Scalar v) = py_ne x v"
  by (simp add: cell_ne_def py_ne_def)

lemma row_mask_Mapping:
  assumes "set (map fst s) \<subseteq> set (columns fr)"
  shows "row_mask cmp fr (Mapping s) =
           Inr (map (\<lambda>x. (fst x, matches (\<lambda>a b. cmp a (Scalar b)) (columns fr) s x)) (rows fr))"
  using assms
  by (simp add: row_mask_def take_columns_def compare_series_def all_axis1_def matches_def
      compare_row split_def comp_def)

lemma select_mapped:
  "map fst (filter (\<lambda>(r, (i, b)). b) (zip xs (map (\<lambda>x. (f x, P x)) xs))) = filter P xs"
  by (induction xs) auto

lemma select_rows_mapped:
  "select_rows fr (map (\<lambda>x. (f x, P x)) (rows fr)) = fr\<lparr>rows := filter P (rows fr)\<rparr>"
  by (simp add: select_rows_def select_mapped)

lemma filter_dt_Mapping:
  assumes "set (map fst s) \<subseteq> set (columns (df t))"
  shows "filter_dt t (Mapping s) = Inr ((df t)\<lparr>rows := filter (matches py_eq (columns (df t)) s) (rows (df t))\<rparr>)"
  using assms by (simp add: filter_dt_def row_mask_Mapping select_rows_mapped)

subsection \<open>The maximum of a column\<close>

lemma fold_larger_Num: "fold larger (map Num bs) (Num a) = Num (fold max bs a)"
  by (induction bs arbitrary: a) (auto simp: larger_def max_def)

lemma fold_larger_Str: "fold larger (map Str bs) (Str a) = Str (fold max bs a)"
  by (induction bs arbitrary: a) (auto simp: larger_def max_def)

lemma all_num_map: "list_all is_number xs \<Longrightarrow> \<exists>bs. xs = map Num bs"
proof (induction xs)
  case Nil
  then show ?case by simp
next
  case (Cons x xs)
  then obtain bs where "xs = map Num bs" by auto
  moreover from Cons.prems obtain b where "x = Num b" by (cases x) auto
  ultimately have "x # xs = map Num (b # bs)" by simp
  then show ?case by (rule exI)
qed

lemma all_str_map: "list_all is_string xs \<Longrightarrow> \<exists>bs. xs = map Str bs"
proof (induction xs)
  case Nil
  then show ?case by simp
next
  case (Cons x xs)
  then obtain bs where "xs = map Str bs" by auto
  moreover from Cons.prems obtain b where "x = Str b" by (cases x) auto
  ultimately have "x # xs = map Str (b # bs)" by simp
  then show ?case by (rule exI)
qed

lemma fold_max_is_Max: "fold max bs (a::'a::linorder) = Max (set (a # bs))"
  by (simp only: Max.set_eq_fold)

lemma greatest_num:
  assumes "list_all is_number (p # ps)"
  shows "fold larger ps p \<in> set (p # ps) \<and> list_all (\<lambda>u. scalar_le u (fold larger ps p)) (p # ps)"
proof -
  from all_num_map [OF assms] obtain cs where cs: "p # ps = map Num cs" by (elim exE)
  then obtain a bs where ab: "cs = a # bs" "p = Num a" "ps = map Num bs" by (cases cs) auto
  let ?m = "Max (set (a # bs))"
  have f: "fold larger ps p = Num ?m"
    by (simp only: ab fold_larger_Num fold_max_is_Max)
  have "?m \<in> set (a # bs)" by (rule Max_in) simp_all
  then have 1: "Num ?m \<in> set (p # ps)" unfolding cs ab(1) by (simp only: set_map) blast
  have "\<forall>b\<in>set (a # bs). b \<le> ?m" by (intro ballI Max_ge) simp_all
  then have 2: "list_all (\<lambda>u. scalar_le u (Num ?m)) (p # ps)"
    unfolding cs ab(1) by (simp add: list_all_iff)
  from 1 2 show ?thesis by (simp only: f)
qed

lemma greatest_str:
  assumes "list_all is_string (p # ps)"
  shows "fold larger ps p \<in> set (p # ps) \<and> list_all (\<lambda>u. scalar_le u (fold larger ps p)) (p # ps)"
proof -
  from all_str_map [OF assms] obtain cs where cs: "p # ps = map Str cs" by (elim exE)
  then obtain a bs where ab: "cs = a # bs" "p = Str a" "ps = map Str bs" by (cases cs) auto
  let ?m = "Max (set (a # bs))"
  have f: "fold larger ps p = Str ?m"
    by (simp only: ab fold_larger_Str fold_max_is_Max)
  have "?m \<in> set (a # bs)" by (rule Max_in) simp_all
  then have 1: "Str ?m \<in> set (p # ps)" unfolding cs ab(1) by (simp only: set_map) blast
  have "\<forall>b\<in>set (a # bs). b \<le> ?m" by (intro ballI Max_ge) simp_all
  then have 2: "list_all (\<lambda>u. scalar_le u (Str ?m)) (p # ps)"
    unfolding cs ab(1) by (simp add: list_all_iff)
  from 1 2 show ?thesis by (simp only: f)
qed

lemma all_str_present: "list_all is_string vs \<Longrightarrow> filter (\<lambda>v. v \<noteq> NaN) vs = vs"
  by (induction vs) auto

lemma series_max_comparable:
  assumes "comparable vs"
  shows "\<exists>v. series_max vs = Inr v \<and> is_max_of vs (if v \<noteq> NaN then v else Num 0)"
proof (cases "filter (\<lambda>v. v \<noteq> NaN) vs")
  case Nil
  then show ?thesis by (simp add: series_max_def is_max_of_def)
next
  case (Cons p ps)
  have g: "series_max vs = Inr (fold larger ps p) \<and> fold larger ps p \<in> set (p # ps) \<and>
      list_all (\<lambda>u. scalar_le u (fold larger ps p)) (p # ps)"
  proof (cases "list_all is_number (p # ps)")
    case True
    have "series_max vs = Inr (fold larger ps p)"
      using True by (simp add: series_max_def Cons)
    with greatest_num [OF True] show ?thesis by simp
  next
    case False
    have "\<not> list_all is_number (filter (\<lambda>v. v \<noteq> NaN) vs)" unfolding Cons by (rule False)
    with assms have s: "list_all is_string vs" unfolding comparable_def by blast
    then have "filter (\<lambda>v. v \<noteq> NaN) vs = vs" by (rule all_str_present)
    with s Cons have t: "list_all is_string (p # ps)" by simp
    have "series_max vs = Inr (fold larger ps p)"
      using False s by (simp add: series_max_def Cons)
    with greatest_str [OF t] show ?thesis by simp
  qed
  then have "fold larger ps p \<in> set (filter (\<lambda>v. v \<noteq> NaN) vs)" by (simp only: Cons)
  then have n: "fold larger ps p \<noteq> NaN" by simp
  from g n show ?thesis by (simp add: is_max_of_def Cons)
qed

lemma update_fresh: "k \<notin> fst ` set al \<Longrightarrow> AList.update k v al = al @ [(k, v)]"
  by (induction al) auto

lemma max_loop_comparable:
  assumes "list_all (\<lambda>c. comparable (column_values tb c)) cols" "distinct cols"
    "set cols \<inter> fst ` set acc = {}"
  shows "\<exists>m. max_loop tb cols acc = Inr (acc @ m) \<and> map fst m = cols \<and>
             list_all (\<lambda>(c, v). is_max_of (column_values tb c) v) m"
  using assms
proof (induction cols arbitrary: acc)
  case Nil
  then show ?case by simp
next
  case (Cons col cols)
  from Cons.prems(1) have "comparable (column_values tb col)" by simp
  from series_max_comparable [OF this] obtain v where
    v: "series_max (column_values tb col) = Inr v"
       "is_max_of (column_values tb col) (if v \<noteq> NaN then v else Num 0)" by blast
  let ?v = "if v \<noteq> NaN then v else Num 0"
  from Cons.prems(3) have fresh: "col \<notin> fst ` set acc" by auto
  have u: "AList.update col ?v acc = acc @ [(col, ?v)]" by (rule update_fresh [OF fresh])
  have "set cols \<inter> fst ` set (acc @ [(col, ?v)]) = {}"
    using Cons.prems(2,3) by auto
  with Cons.IH [of "acc @ [(col, ?v)]"] Cons.prems(1,2) obtain m where
    m: "max_loop tb cols (acc @ [(col, ?v)]) = Inr ((acc @ [(col, ?v)]) @ m)"
       "map fst m = cols" "list_all (\<lambda>(c, v). is_max_of (column_values tb c) v) m"
    by auto
  have "max_loop tb (col # cols) acc = Inr (acc @ ((col, ?v) # m))"
    by (simp only: max_loop.simps v(1) and_then_Inr u m(1)) simp
  with m(2,3) v(2) show ?case by (intro exI [of _ "(col, ?v) # m"]) simp
qed


lemma check_columns_ok:
  assumes "list_all (\<lambda>kw. \<exists>v cols. map_of q kw = Some v \<and> named_columns kw v = Inr cols) kws"
  shows "check_columns t q kws = Inr ()"
proof -
  have "check_entry t q kw = Inr ()"
    if "\<exists>v cols. map_of q kw = Some v \<and> named_columns kw v = Inr cols" for kw
  proof -
    from that obtain v cols where "map_of q kw = Some v" "named_columns kw v = Inr cols"
      by blast
    then show ?thesis
      by (simp add: check_entry_def are_contained_always del: named_columns.simps)
  qed
  with assms show ?thesis by (simp add: check_columns_passes list_all_iff)
qed

lemma in_keys: "(k \<in> fst ` set q) = (map_of q k \<noteq> None)"
  by (simp add: map_of_eq_None_iff)

lemma default_state_present:
  "map_of q ''state'' = Some v \<Longrightarrow> default_state q = q"
  by (simp add: default_state_def in_keys del: map_of_eq_None_iff)

lemma default_state_absent:
  "map_of q ''state'' = None \<Longrightarrow> default_state q = q @ [(''state'', Mapping [])]"
  by (simp add: default_state_def in_keys del: map_of_eq_None_iff)

lemma default_state_lookup:
  assumes "map_of q ''state'' = Some (Mapping s) \<or> (map_of q ''state'' = None \<and> s = [])"
  shows "map_of (default_state q) ''state'' = Some (Mapping s)"
    and "k \<noteq> ''state'' \<Longrightarrow> map_of (default_state q) k = map_of q k"
proof -
  show "map_of (default_state q) ''state'' = Some (Mapping s)"
  proof (cases "map_of q ''state''")
    case None
    with assms have "s = []" by simp
    with None show ?thesis
      by (simp only: default_state_absent [OF None] map_of_append) (simp add: map_add_def)
  next
    case (Some v)
    with assms show ?thesis by (simp only: default_state_present [OF Some]) simp
  qed
  show "map_of (default_state q) k = map_of q k" if "k \<noteq> ''state''"
  proof (cases "map_of q ''state''")
    case None
    from that show ?thesis
      by (simp only: default_state_absent [OF None] map_of_append)
        (simp add: map_add_def split: option.splits)
  next
    case (Some v)
    show ?thesis by (simp only: default_state_present [OF Some])
  qed
qed

lemma max_validation_ok:
  assumes "map_of q ''columns'' = Some (Names cs)" "map_of q ''state'' = Some (Mapping s)"
    "\<And>v. map_of q ''values'' = Some v \<Longrightarrow> is_dict v"
  shows "query_validation t (PyDict q) (Some [''columns'']) = Inr ()"
proof -
  from assms(1) have c: "''columns'' \<in> set (map fst q)"
    by (simp add: in_keys del: map_of_eq_None_iff)
  have a: "assertion (set (extract_match (map fst q) [''columns'']) = set [''columns'']) = Inr ()"
    using c by (auto simp: assertion_def extract_match_def)
  have "\<exists>v cols. map_of q kw = Some v \<and> named_columns kw v = Inr cols"
    if "kw \<in> set (extract_match (map fst q) query_keys)" for kw
  proof -
    from that have k: "map_of q kw \<noteq> None" and "kw \<in> set query_keys"
      by (simp_all add: extract_match_def in_keys del: map_of_eq_None_iff)
    then consider "kw = ''columns''" | "kw = ''state''" | "kw = ''values''"
      by (auto simp: query_keys_def)
    then show ?thesis
    proof cases
      case 1
      with assms(1) show ?thesis by simp
    next
      case 2
      with assms(2) show ?thesis by simp
    next
      case 3
      with k obtain v where v: "map_of q ''values'' = Some v" by auto
      from assms(3) [OF v] have "\<exists>cols. named_columns ''values'' v = Inr cols"
        by (cases v) simp_all
      with 3 v show ?thesis by (simp del: named_columns.simps)
    qed
  qed
  then have "list_all (\<lambda>kw. \<exists>v cols. map_of q kw = Some v \<and> named_columns kw v = Inr cols)
          (extract_match (map fst q) query_keys)"
    unfolding list_all_iff by blast
  then have "check_columns t q (extract_match (map fst q) query_keys) = Inr ()"
    by (rule check_columns_ok)
  with a show ?thesis
    by (simp add: query_validation_def are_contained_always)
qed

lemma cell_projected: "c \<in> set cs \<Longrightarrow> cell cs (map g cs) c = g c"
  by (simp add: cell_def map_of_zip_map)

lemma column_values_projected:
  assumes "c \<in> set cs"
  shows "column_values \<lparr>columns = cs, rows = map (\<lambda>(i, r). (i, map (cell cols r) cs)) rs\<rparr> c
       = column_values \<lparr>columns = cols, rows = rs\<rparr> c"
  using assms by (simp add: column_values_def cell_projected split_def comp_def)

lemma not_comparable_raises: "\<not> comparable vs \<Longrightarrow> series_max vs = Inl TypeError"
  by (auto simp: comparable_def series_max_def split: list.splits)

lemma max_loop_raises:
  assumes "\<not> list_all (\<lambda>c. comparable (column_values tb c)) cols"
  shows "max_loop tb cols acc = Inl TypeError"
  using assms
proof (induction cols arbitrary: acc)
  case Nil
  then show ?case by simp
next
  case (Cons col cols)
  show ?case
  proof (cases "comparable (column_values tb col)")
    case True
    from series_max_comparable [OF True] obtain v where
      "series_max (column_values tb col) = Inr v" by blast
    moreover from True Cons.prems have
      "\<not> list_all (\<lambda>c. comparable (column_values tb c)) cols" by simp
    ultimately show ?thesis using Cons.IH by simp
  next
    case False
    then show ?thesis by (simp add: not_comparable_raises)
  qed
qed

text \<open>
  Claim C4 as stated: for every table and every \<^verbatim>\<open>max\<close> query naming existing
  columns, \<^verbatim>\<open>max\<close> never raises. It raises \<^verbatim>\<open>TypeError\<close> on a column that holds a
  number and a string, which the frame cannot order.
\<close>

theorem max_raises_on_mixed_column:
  "snd (snd (max_dt (PyDict [(''columns'', Names [''age''])]) pets)) = Inl TypeError"
  by code_simp

text \<open>
  Claim C4, amended. Let the query bind \<open>columns\<close> to a set of columns of the table and
  bind \<open>state\<close>, if at all, to a mapping from columns of the table to scalars; an entry
  \<open>values\<close>, if there is one, is a dict. When the selected values of every requested
  column are comparable, \<^verbatim>\<open>max\<close> raises nothing and returns one entry per requested
  column, in order: 0 when the selection has no row or only missing values in the
  column, and otherwise the greatest of the column's selected values. When the selected
  values of some requested column are not comparable (a string next to a number or next
  to a missing value), \<^verbatim>\<open>max\<close> raises \<^verbatim>\<open>TypeError\<close>.
\<close>

theorem max_dt_comparable:
  assumes cols: "map_of q ''columns'' = Some (Names cs)" "distinct cs"
      "set cs \<subseteq> set (columns (df t))"
    and st: "map_of q ''state'' = Some (Mapping s) \<or> (map_of q ''state'' = None \<and> s = [])"
      "set (map fst s) \<subseteq> set (columns (df t))"
    and vals: "\<And>v. map_of q ''values'' = Some v \<Longrightarrow> is_dict v"
  shows "(list_all (\<lambda>c. comparable (column_values (selected t s) c)) cs \<longrightarrow>
            (\<exists>m. max_dt (PyDict q) t = (t, PyDict (default_state q), Inr m) \<and> map fst m = cs \<and>
                 list_all (\<lambda>(c, v). is_max_of (column_values (selected t s) c) v) m)) \<and>
         (\<not> list_all (\<lambda>c. comparable (column_values (selected t s) c)) cs \<longrightarrow>
            max_dt (PyDict q) t = (t, PyDict (default_state q), Inl TypeError))"
proof -
  let ?q = "default_state q"
  let ?f = "\<lparr>columns = cs,
             rows = map (\<lambda>(i, r). (i, map (cell (columns (df t)) r) cs)) (rows (selected t s))\<rparr>"
  have s': "map_of ?q ''state'' = Some (Mapping s)"
    and c': "map_of ?q ''columns'' = Some (Names cs)"
    and v': "map_of ?q ''values'' = map_of q ''values''"
    using default_state_lookup [OF st(1)] cols(1) by simp_all
  have val: "query_validation t (PyDict ?q) (Some [''columns'']) = Inr ()"
  proof (rule max_validation_ok [OF c' s'])
    fix v
    assume "map_of ?q ''values'' = Some v"
    then show "is_dict v" using vals by (simp only: v')
  qed
  have fil: "filter_dt t (Mapping s) = Inr (selected t s)"
    unfolding selected_def by (rule filter_dt_Mapping [OF st(2)])
  have sel: "getitem (selected t s) (Names cs) = Inr (Frame ?f)"
    using cols(3) by (simp add: take_columns_def selected_def)
  have same: "column_values ?f c = column_values (selected t s) c" if "c \<in> set cs" for c
    using column_values_projected [OF that, of "columns (df t)" "rows (selected t s)"]
    by (simp add: selected_def column_values_def)
  have run: "max_from ?q t = max_loop ?f cs []"
    by (simp add: max_from_def val s' c' fil sel del: getitem.simps)
  have both: "list_all (\<lambda>c. comparable (column_values ?f c)) cs =
      list_all (\<lambda>c. comparable (column_values (selected t s) c)) cs"
    unfolding list_all_iff using same by simp
  have ok: "\<exists>m. max_dt (PyDict q) t = (t, PyDict ?q, Inr m) \<and> map fst m = cs \<and>
      list_all (\<lambda>(c, v). is_max_of (column_values (selected t s) c) v) m"
    if cmp: "list_all (\<lambda>c. comparable (column_values (selected t s) c)) cs"
  proof -
    from cmp both have "list_all (\<lambda>c. comparable (column_values ?f c)) cs" by simp
    from max_loop_comparable [OF this cols(2), of "[]"] obtain m where
      m: "max_loop ?f cs [] = Inr m" "map fst m = cs"
         "list_all (\<lambda>(c, v). is_max_of (column_values ?f c) v) m" by auto
    have "is_max_of (column_values (selected t s) (fst x)) (snd x)" if "x \<in> set m" for x
    proof -
      from that m(2) have k: "fst x \<in> set cs" by (metis image_eqI set_map)
      from m(3) that have "is_max_of (column_values ?f (fst x)) (snd x)"
        unfolding list_all_iff by (cases x) auto
      then show ?thesis by (simp only: same [OF k])
    qed
    then have "list_all (\<lambda>(c, v). is_max_of (column_values (selected t s) c) v) m"
      unfolding list_all_iff by (simp add: split_def)
    with run m(1,2) show ?thesis by (simp add: max_dt_def)
  qed
  have bad: "max_dt (PyDict q) t = (t, PyDict ?q, Inl TypeError)"
    if "\<not> list_all (\<lambda>c. comparable (column_values (selected t s) c)) cs"
  proof -
    from that both have "\<not> list_all (\<lambda>c. comparable (column_values ?f c)) cs" by simp
    then have "max_loop ?f cs [] = Inl TypeError" by (rule max_loop_raises)
    with run show ?thesis by (simp add: max_dt_def)
  qed
  from ok bad show ?thesis by blast
qed

theorem max_dt_comparable_witness:
  "(\<exists>m. max_dt (PyDict [(''columns'', Names [''age'', ''weight'', ''name'', ''tag'']),
                          (''state'', Mapping [(''kind'', Str ''dog'')])]) herd =
          (herd, PyDict [(''columns'', Names [''age'', ''weight'', ''name'', ''tag'']),
                         (''state'', Mapping [(''kind'', Str ''dog'')])], Inr m) \<and>
        map fst m = [''age'', ''weight'', ''name'', ''tag''] \<and>
        list_all (\<lambda>(c, v). is_max_of (column_values (selected herd [(''kind'', Str ''dog'')]) c) v) m) \<and>
   max_dt (PyDict [(''columns'', Names [''age'', ''weight'', ''name'', ''tag'']),
                   (''state'', Mapping [(''kind'', Str ''dog'')])]) herd =
     (herd, PyDict [(''columns'', Names [''age'', ''weight'', ''name'', ''tag'']),
                    (''state'', Mapping [(''kind'', Str ''dog'')])],
      Inr [(''age'', Num 5), (''weight'', Num 0), (''name'', Str ''rex''), (''tag'', Str ''c'')]) \<and>
   max_dt (PyDict [(''columns'', Names [''age'', ''tag'']),
                   (''values'', Mapping [(''age'', Num 1)])]) herd =
     (herd, PyDict [(''columns'', Names [''age'', ''tag'']),
                    (''values'', Mapping [(''age'', Num 1)]),
                    (''state'', Mapping [])], Inl TypeError)"
proof -
  let ?q = "[(''columns'', Names [''age'', ''weight'', ''name'', ''tag'']),
             (''state'', Mapping [(''kind'', Str ''dog'')])]"
  let ?s = "[(''kind'', Str ''dog'')]"
  let ?cs = "[''age'', ''weight'', ''name'', ''tag'']"
  let ?q' = "[(''columns'', Names [''age'', ''tag'']), (''values'', Mapping [(''age'', Num 1)])]"
  let ?cs' = "[''age'', ''tag'']"
  have 1: "map_of ?q ''columns'' = Some (Names ?cs)" by simp
  have 2: "distinct ?cs" by simp
  have 3: "set ?cs \<subseteq> set (columns (df herd))" by (simp add: herd_def)
  have 4: "map_of ?q ''state'' = Some (Mapping ?s) \<or> (map_of ?q ''state'' = None \<and> ?s = [])"
    by simp
  have 5: "set (map fst ?s) \<subseteq> set (columns (df herd))" by (simp add: herd_def)
  have 6: "is_dict v" if "map_of ?q ''values'' = Some v" for v using that by simp
  have 7: "list_all (\<lambda>c. comparable (column_values (selected herd ?s) c)) ?cs"
    by code_simp
  have 8: "default_state ?q = ?q" by (simp add: default_state_def)
  have a: "map_of ?q' ''columns'' = Some (Names ?cs')" by simp
  have b: "distinct ?cs'" by simp
  have c: "set ?cs' \<subseteq> set (columns (df herd))" by (simp add: herd_def)
  have d: "map_of ?q' ''state'' = Some (Mapping []) \<or> (map_of ?q' ''state'' = None \<and> [] = [])"
    by simp
  have e: "set (map fst []) \<subseteq> set (columns (df herd))" by simp
  have f: "is_dict v" if "map_of ?q' ''values'' = Some v" for v using that by auto
  have g: "\<not> list_all (\<lambda>c. comparable (column_values (selected herd []) c)) ?cs'"
    by code_simp
  have h: "default_state ?q' = ?q' @ [(''state'', Mapping [])]" by (simp add: default_state_def)
  have res: "max_dt (PyDict ?q) herd =
     (herd, PyDict ?q,
      Inr [(''age'', Num 5), (''weight'', Num 0), (''name'', Str ''rex''), (''tag'', Str ''c'')])"
    by code_simp
  from max_dt_comparable [OF 1 2 3 4 5 6] 7 max_dt_comparable [OF a b c d e f] g res
  show ?thesis by (simp only: 8 h) simp
qed

subsection \<open>Deleting\<close>

text \<open>
  \<^verbatim>\<open>delete\<close> keeps the rows of the mask \<^verbatim>\<open>(frame != series).all(axis=1)\<close>: the rows
  that differ from the state in every condition. A row that equals the state in some
  condition is dropped, and under the empty state every row is kept.
\<close>

lemma state_only_valid:
  "query_validation t (PyDict [(''state'', Mapping s)]) (Some [''state'']) = Inr ()"
  by (simp add: query_validation_def are_contained_always assertion_def extract_match_def
      query_keys_def check_entry_def first_raised_def)

lemma delete_state_only:
  assumes "set (map fst s) \<subseteq> set (columns (df (tbl w)))"
  shows "delete (PyDict [(''state'', Mapping s)]) (PyBool False) w =
           (w\<lparr>tbl := (tbl w)\<lparr>df := (df (tbl w))\<lparr>rows :=
               filter (matches py_ne (columns (df (tbl w))) s) (rows (df (tbl w)))\<rparr>\<rparr>\<rparr>, Inr ())"
  by (simp add: delete_def state_only_valid row_mask_Mapping [OF assms] select_rows_mapped
      save_if_def)

lemma no_row_both:
  assumes "s \<noteq> []"
  shows "filter (matches py_eq cols s) (filter (matches py_ne cols s) rs) = []"
proof -
  from assms obtain k v s' where "s = (k, v) # s'" by (cases s) auto
  then have "\<not> (matches py_eq cols s x \<and> matches py_ne cols s x)" for x
    by (cases x) (simp add: matches_def py_ne_def)
  then show ?thesis unfolding filter_empty_conv by auto
qed

lemma delete_then_get_nonempty:
  assumes "set (map fst s) \<subseteq> set (columns (df (tbl w)))" "s \<noteq> []"
    "delete (PyDict [(''state'', Mapping s)]) (PyBool False) w = (w', r)"
  shows "snd (snd (get (PyDict [(''state'', Mapping s)]) ListT (tbl w'))) =
           Inr (AsList (map (\<lambda>c. (c, [])) (columns (df (tbl w)))))"
proof -
  let ?cols = "columns (df (tbl w))"
  from assms(3) have w': "tbl w' = (tbl w)\<lparr>df := (df (tbl w))\<lparr>rows :=
      filter (matches py_ne ?cols s) (rows (df (tbl w)))\<rparr>\<rparr>"
    by (auto simp: delete_state_only [OF assms(1)])
  have c: "set (map fst s) \<subseteq> set (columns (df (tbl w')))" using assms(1) by (simp add: w')
  have "filter_dt (tbl w') (Mapping s) = Inr ((df (tbl w'))\<lparr>rows := []\<rparr>)"
    by (simp only: filter_dt_Mapping [OF c]) (simp add: w' no_row_both [OF assms(2)] del: filter_filter)
  then show ?thesis
    by (simp add: get_def get_from_def default_state_def state_only_valid column_values_def w')
qed

text \<open>
  Claim C2. \<^verbatim>\<open>delete\<close> is to drop exactly the rows that satisfy every condition of
  the state and to keep a row that satisfies only some. With the state
  \<open>animal = dog, color = red\<close> the row (dog, black) satisfies one condition of two, and
  \<^verbatim>\<open>delete\<close> drops it: only (cat, black) is left.
\<close>

theorem delete_drops_partial_match:
  "delete (PyDict [(''state'', Mapping [(''animal'', Str ''dog''), (''color'', Str ''red'')])])
      (PyBool False) animals_world =
     (\<lparr>tbl = \<lparr>df = \<lparr>columns = [''animal'', ''color''],
                     rows = [(1, [Str ''cat'', Str ''black''])]\<rparr>,
              path = Some None, sep = Some '';''\<rparr>,
       files = []\<rparr>, Inr ())"
  by code_simp

text \<open>
  Claim C7. After \<^verbatim>\<open>delete\<close> with a state, \<^verbatim>\<open>get\<close> with the same state is to find no
  row. Under the empty state, which every row satisfies, \<^verbatim>\<open>delete\<close> drops nothing and
  \<^verbatim>\<open>get\<close> returns the three rows. (For a non-empty state the rows left differ from the
  state everywhere and \<^verbatim>\<open>get\<close> finds none: \<open>delete_then_get_nonempty\<close>.)
\<close>

theorem delete_empty_state_then_get:
  "(case delete (PyDict [(''state'', Mapping [])]) (PyBool False) animals_world of
      (w, r) \<Rightarrow> (r, snd (snd (get (PyDict [(''state'', Mapping [])]) ListT (tbl w))))) =
   (Inr (), Inr (AsList [(''animal'', [Str ''dog'', Str ''cat'', Str ''dog'']),
                         (''color'', [Str ''red'', Str ''black'', Str ''black''])]))"
  by code_simp

subsection \<open>Saving\<close>

text \<open>
  \<^verbatim>\<open>save\<close> without a path argument reads \<^verbatim>\<open>__path\<close>. The attribute does not exist on a
  table constructed without an argument, and is \<^verbatim>\<open>None\<close> on a table constructed from a
  dict; \<^verbatim>\<open>to_csv\<close> with the path \<^verbatim>\<open>None\<close> renders the text and writes no file.
\<close>

lemma save_unset_path: "path t = None \<Longrightarrow> save t None sep_arg fs = Inl AttributeError"
  by (simp add: save_def)

lemma save_none_path:
  "path t = Some None \<Longrightarrow> sep t = Some sp \<Longrightarrow> length sp = 1 \<Longrightarrow> save t None None fs = Inr fs"
  by (simp add: save_def to_csv_def)

lemma save_if_False: "save_if False w = (w, Inr ())"
  by (simp add: save_if_def)

lemma mutation_flag:
  assumes "op = delete \<or> op = edit \<or> op = append_dt"
    and "op query (PyBool False) w = (w', Inr ())"
  shows "op query (PyBool True) w = save_if True w' \<and> path (tbl w') = path (tbl w) \<and>
         sep (tbl w') = sep (tbl w) \<and> files w' = files w"
  using assms
  by (auto simp: delete_def edit_def append_dt_def save_if_False split: sum.splits)

text \<open>
  Claim C5 as stated: on a table constructed from a dict, \<^verbatim>\<open>save\<close> without a path is to
  fail. It returns normally and the file system is as before.
\<close>

theorem save_on_dict_table_succeeds:
  "init no_path no_reader
     (FromDict [(''animal'', [Str ''dog'', Str ''cat'', Str ''dog'']),
                (''color'', [Str ''red'', Str ''black'', Str ''black''])]) '';'' False =
     Inr animals \<and>
   save animals None None [] = Inr []"
  by code_simp

text \<open>
  Claim C5, amended. A table constructed without an argument has no \<^verbatim>\<open>__path\<close>: on it
  \<^verbatim>\<open>save\<close> without a path raises \<^verbatim>\<open>AttributeError\<close>, and \<^verbatim>\<open>delete\<close>, \<^verbatim>\<open>edit\<close> and
  \<^verbatim>\<open>append\<close> with the save flag true raise it after applying the effect they have with
  the flag false. A table constructed from a dict has the \<^verbatim>\<open>__path\<close> \<^verbatim>\<open>None\<close>: with a
  separator of one character \<^verbatim>\<open>save\<close> without a path returns normally and writes no
  file, and the three mutating calls with the save flag true apply their effect and
  return normally.
\<close>

theorem save_without_source_location:
  assumes "op = delete \<or> op = edit \<or> op = append_dt"
    and "op query (PyBool False) w = (w', Inr ())"
  shows "(path (tbl w) = None \<longrightarrow>
            save (tbl w) None sep_arg (files w) = Inl AttributeError \<and>
            op query (PyBool True) w = (w', Inl AttributeError)) \<and>
         (path (tbl w) = Some None \<and> sep (tbl w) = Some sp \<and> length sp = 1 \<longrightarrow>
            save (tbl w) None None (files w) = Inr (files w) \<and>
            op query (PyBool True) w = (w', Inr ())) \<and>
         init path_exists read_csv Neither sp' replace_nan =
           Inr \<lparr>df = empty_frame, path = None, sep = Some sp'\<rparr> \<and>
         (init path_exists read_csv (FromDict d) sp' replace_nan = Inr t \<longrightarrow>
            path t = Some None \<and> sep t = Some sp')"
proof -
  from mutation_flag [OF assms] have
    m: "op query (PyBool True) w = save_if True w'" and
    p: "path (tbl w') = path (tbl w)" and s: "sep (tbl w') = sep (tbl w)" by simp_all
  have 1: "op query (PyBool True) w = (w', Inl AttributeError)" if "path (tbl w) = None"
    using that p by (simp add: m save_if_def save_unset_path)
  have 2: "op query (PyBool True) w = (w', Inr ())"
    if "path (tbl w) = Some None" "sep (tbl w) = Some sp" "length sp = 1"
    using that p s by (simp add: m save_if_def save_none_path)
  have 3: "init path_exists read_csv Neither sp' replace_nan =
      Inr \<lparr>df = empty_frame, path = None, sep = Some sp'\<rparr>"
    by (simp add: init_def)
  have 4: "path t = Some None \<and> sep t = Some sp'"
    if "init path_exists read_csv (FromDict d) sp' replace_nan = Inr t"
    using that by (cases "data_frame (Lists d)") (auto simp: init_def)
  from 1 2 3 4 show ?thesis
    by (auto simp: save_unset_path save_none_path)
qed

theorem save_without_source_location_witness:
  "save blank None None [] = Inl AttributeError \<and>
   append_dt (PyDict [(''values'', Records [[(''animal'', Str ''cow'')]])]) (PyBool True)
       \<lparr>tbl = blank, files = []\<rparr> =
     (\<lparr>tbl = \<lparr>df = \<lparr>columns = [''animal''], rows = [(0, [Str ''cow''])]\<rparr>,
              path = None, sep = Some '';''\<rparr>, files = []\<rparr>, Inl AttributeError) \<and>
   save animals None None [] = Inr [] \<and>
   delete (PyDict [(''state'', Mapping [(''animal'', Str ''dog'')])]) (PyBool True) animals_world =
     (\<lparr>tbl = \<lparr>df = \<lparr>columns = [''animal'', ''color''], rows = [(1, [Str ''cat'', Str ''black''])]\<rparr>,
              path = Some None, sep = Some '';''\<rparr>, files = []\<rparr>, Inr ())"
proof -
  let ?q1 = "PyDict [(''values'', Records [[(''animal'', Str ''cow'')]])]"
  let ?w1 = "\<lparr>tbl = blank, files = []\<rparr>"
  let ?w1' = "\<lparr>tbl = \<lparr>df = \<lparr>columns = [''animal''], rows = [(0, [Str ''cow''])]\<rparr>,
              path = None, sep = Some '';''\<rparr>, files = []\<rparr>"
  let ?q2 = "PyDict [(''state'', Mapping [(''animal'', Str ''dog'')])]"
  let ?w2' = "\<lparr>tbl = \<lparr>df = \<lparr>columns = [''animal'', ''color''], rows = [(1, [Str ''cat'', Str ''black''])]\<rparr>,
              path = Some None, sep = Some '';''\<rparr>, files = []\<rparr>"
  have a1: "append_dt = delete \<or> append_dt = edit \<or> append_dt = append_dt" by simp
  have a2: "append_dt ?q1 (PyBool False) ?w1 = (?w1', Inr ())" by code_simp
  have b1: "delete = delete \<or> delete = edit \<or> delete = append_dt" by simp
  have b2: "delete ?q2 (PyBool False) animals_world = (?w2', Inr ())" by code_simp
  have p1: "path (tbl ?w1) = None" by (simp add: blank_def)
  have p2: "path (tbl animals_world) = Some None \<and> sep (tbl animals_world) = Some '';'' \<and>
            length '';'' = 1"
    by (simp add: animals_world_def animals_def)
  from save_without_source_location [OF a1 a2, of None "'';''"] p1
    save_without_source_location [OF b1 b2, of None "'';''"] p2
  show ?thesis by (simp add: animals_world_def)
qed

end
